theory Spec2Isabelle
  imports Main "HOL-Library.Word" "HOL-Library.AList"
begin

unbundle bit_operations_syntax

section \<open>Mission Monitor: the local state engine of script.js\<close>

text \<open>
  The program keeps one JSON document in one localStorage slot. Every method of
  StorageManager reads the document (getData), changes it in memory and writes it back
  (saveData). The model passes the document explicitly: a method takes the document and
  returns its result together with the document that is stored afterwards.

  What the platform supplies is an input of the model: the clock (Date), the random
  source (Math.random), the offsets of the device's time zone and the functions of Date
  that read a text are fields of the record \<open>env\<close>, one value per handler run. localStorage.setItem is taken to succeed, so
  saveData returns true.
\<close>

subsection \<open>The persisted document\<close>

record user =
  username :: string
  displayName :: string
  passwordHash :: string
  user_createdAt :: string

record task =
  task_id :: string
  userId :: "string option"
  title :: string
  description :: string
  priority :: string
  date :: string
  startTime :: string
  endTime :: string
  createdAt :: string
  completed :: bool
  completedAt :: "string option"

record badge =
  badge_id :: string
  badge_userId :: "string option"
  badge_title :: string
  badge_description :: string
  badge_icon :: string
  badge_category :: string
  earnedAt :: string

record settings =
  theme :: string
  notifications :: bool

text \<open>
  \<open>currentUser\<close> is null (None) or a username. \<open>users\<close> is the object used as a
  dictionary from username to user record; only its own properties are stored here.
\<close>

record data =
  users :: "string \<rightharpoonup> user"
  currentUser :: "string option"
  tasks :: "task list"
  badges :: "badge list"
  settings :: settings

text \<open>
  What one handler run reads from the platform:
  \<^item> \<open>nowMs\<close>: Date.now(), milliseconds;
  \<^item> \<open>nowIso\<close>: new Date().toISOString();
  \<^item> \<open>random36\<close>: Math.random().toString(36).substr(2), the base-36 digits of the draw;
  \<^item> \<open>tzaUtc t\<close>, \<open>tzaLocal t\<close>: the offset of local time from UTC, in milliseconds, that
    the time zone of the device has in force at the UTC instant t and at the local time
    value t (what Date uses to read local fields and to set them);
  \<^item> \<open>getHours\<close>, \<open>getDay\<close>: new Date(s).getHours() and new Date(s).getDay(), None for an
    Invalid Date (NaN, which every comparison rejects);
  \<^item> \<open>afterToday s\<close>: new Date(s) > today at local midnight;
  \<^item> \<open>parseDate s\<close>: new Date(s).getTime(), None for an Invalid Date.
\<close>

record env =
  nowMs :: nat
  nowIso :: string
  random36 :: string
  tzaUtc :: "int \<Rightarrow> int"
  tzaLocal :: "int \<Rightarrow> int"
  getHours :: "string \<Rightarrow> nat option"
  getDay :: "string \<Rightarrow> nat option"
  afterToday :: "string \<Rightarrow> bool"
  parseDate :: "string \<Rightarrow> int option"

text \<open>\<open>s.split('T')[0]\<close>: the text before the first \<open>T\<close>.\<close>

definition split_T0 :: "string \<Rightarrow> string" where
  "split_T0 s = takeWhile (\<lambda>c. c \<noteq> CHR ''T'') s"

subsection \<open>Numbers and dates as text\<close>

definition digit10 :: "nat \<Rightarrow> char" where
  "digit10 n = (''0123456789'') ! n"

function toStringNat :: "nat \<Rightarrow> string" where
  "toStringNat n = (if n < 10 then [digit10 n] else toStringNat (n div 10) @ [digit10 (n mod 10)])"
  by pat_completeness auto
termination
  by (relation "measure (\<lambda>n. n)") auto

definition padLeft :: "nat \<Rightarrow> string \<Rightarrow> string" where
  "padLeft n s = replicate (n - length s) (CHR ''0'') @ s"

text \<open>
  The date part of Date.prototype.toISOString: the day number n counts the days since
  1 January 1970 (the time value divided by the milliseconds of a day, rounded down), and
  \<open>civil n\<close> is its year, month and day in the Gregorian calendar. A year from 0 to 9999
  is written with four digits, any other year with a sign and six.
\<close>

definition civil :: "int \<Rightarrow> int \<times> int \<times> int" where
  "civil n =
     (let z = n + 719468;
          era = z div 146097;
          doe = z mod 146097;
          yoe = (doe - doe div 1460 + doe div 36524 - doe div 146096) div 365;
          doy = doe - (365 * yoe + yoe div 4 - yoe div 100);
          mp = (5 * doy + 2) div 153;
          d = doy - (153 * mp + 2) div 5 + 1;
          m = (if mp < 10 then mp + 3 else mp - 9);
          y = yoe + era * 400 + (if m \<le> 2 then 1 else 0)
      in (y, m, d))"

definition yearText :: "int \<Rightarrow> string" where
  "yearText y =
     (if y < 0 then CHR ''-'' # padLeft 6 (toStringNat (nat (- y)))
      else if y > 9999 then CHR ''+'' # padLeft 6 (toStringNat (nat y))
      else padLeft 4 (toStringNat (nat y)))"

definition isoDate :: "int \<Rightarrow> string" where
  "isoDate n =
     (case civil n of (y, m, d) \<Rightarrow>
        yearText y @ ''-'' @ padLeft 2 (toStringNat (nat m)) @ ''-'' @ padLeft 2 (toStringNat (nat d)))"

subsection \<open>StorageManager: ids\<close>

definition digit36 :: "nat \<Rightarrow> char" where
  "digit36 n = (''0123456789abcdefghijklmnopqrstuvwxyz'') ! n"

text \<open>Number.prototype.toString(36) on a non-negative integer.\<close>

function toString36 :: "nat \<Rightarrow> string" where
  "toString36 n = (if n < 36 then [digit36 n] else toString36 (n div 36) @ [digit36 (n mod 36)])"
  by pat_completeness auto
termination
  by (relation "measure (\<lambda>n. n)") auto

text \<open>\<open>Date.now().toString(36) + Math.random().toString(36).substr(2)\<close>\<close>

definition generateId :: "env \<Rightarrow> string" where
  "generateId e = toString36 (nowMs e) @ random36 e"

subsection \<open>StorageManager: tasks\<close>

text \<open>
  addTask: the input's fields are spread first, then id, userId, createdAt and completed
  are set. The new task is pushed and returned.
\<close>

definition addTask :: "task \<Rightarrow> env \<Rightarrow> data \<Rightarrow> task \<times> data" where
  "addTask inp e d =
     (let newTask = inp\<lparr>task_id := generateId e, userId := currentUser d,
                        createdAt := nowIso e, completed := False\<rparr>
      in (newTask, d\<lparr>tasks := tasks d @ [newTask]\<rparr>))"

definition getTasks :: "data \<Rightarrow> task list" where
  "getTasks d = filter (\<lambda>t. userId t = currentUser d) (tasks d)"







subsection \<open>StorageManager: badges and statistics\<close>

text \<open>
  addBadge refuses a badge when the current user already holds one with the same id,
  whatever its earnedAt; otherwise it stamps userId and earnedAt, pushes and returns it.
\<close>

definition addBadge :: "badge \<Rightarrow> env \<Rightarrow> data \<Rightarrow> badge option \<times> data" where
  "addBadge b e d =
     (case find (\<lambda>x. badge_id x = badge_id b \<and> badge_userId x = currentUser d) (badges d) of
        Some existingBadge \<Rightarrow> (None, d)
      | None \<Rightarrow>
          (let newBadge = b\<lparr>badge_userId := currentUser d, earnedAt := nowIso e\<rparr>
           in (Some newBadge, d\<lparr>badges := badges d @ [newBadge]\<rparr>)))"

definition getBadges :: "data \<Rightarrow> badge list" where
  "getBadges d = filter (\<lambda>b. badge_userId b = currentUser d) (badges d)"

record stats =
  total :: nat
  stats_completed :: nat
  pending :: nat
  completedTasks :: nat
  today_total :: nat
  today_completed :: nat
  today_pending :: nat
  high :: nat
  medium :: nat
  low :: nat

definition getTaskStats :: "env \<Rightarrow> data \<Rightarrow> stats" where
  "getTaskStats e d =
     (let ts = getTasks d;
          today = split_T0 (nowIso e);
          todayTasks = filter (\<lambda>t. date t = today) ts;
          completedTs = filter completed ts;
          pendingTs = filter (\<lambda>t. \<not> completed t) ts
      in \<lparr>total = length ts,
          stats_completed = length completedTs,
          pending = length pendingTs,
          completedTasks = length completedTs,
          today_total = length todayTasks,
          today_completed = length (filter completed todayTasks),
          today_pending = length (filter (\<lambda>t. \<not> completed t) todayTasks),
          high = length (filter (\<lambda>t. priority t = ''high'') ts),
          medium = length (filter (\<lambda>t. priority t = ''medium'') ts),
          low = length (filter (\<lambda>t. priority t = ''low'') ts)\<rparr>)"

subsection \<open>BadgeManager\<close>

text \<open>
  checkCompletionStreak. In iteration i the source copies today's Date, sets its day of
  the month to \<open>today.getDate() - i\<close> and takes \<open>toISOString().split('T')[0]\<close>. setDate
  works on the local fields: the local time value of now moves back by i whole days, at
  the same local time of day, and becomes an instant again by the offset in force at that
  local time. toISOString then writes the UTC date of that instant, which has no \<open>T\<close> in
  it, so \<open>dateString\<close> is the whole of \<open>split('T')[0]\<close>.
\<close>

definition msPerDay :: int where
  "msPerDay = 86400000"

definition localNow :: "env \<Rightarrow> int" where
  "localNow e = int (nowMs e) + tzaUtc e (int (nowMs e))"

definition checkDate :: "env \<Rightarrow> nat \<Rightarrow> int" where
  "checkDate e i =
     (localNow e - int i * msPerDay) - tzaLocal e (localNow e - int i * msPerDay)"

definition dateString :: "env \<Rightarrow> nat \<Rightarrow> string" where
  "dateString e i = isoDate (checkDate e i div msPerDay)"

text \<open>
  \<open>dayTasks e ts i\<close> are the tasks whose date is the date string of iteration i. The loop
  \<open>for (let i = 0; i < 365; i++)\<close> is \<open>streakLoop\<close>, with the loop variable and the
  running streak as arguments: \<open>continue\<close> is the call with the streak unchanged,
  \<open>break\<close> leaves the loop for the final \<open>return false\<close>.
\<close>

definition dayTasks :: "env \<Rightarrow> task list \<Rightarrow> nat \<Rightarrow> task list" where
  "dayTasks e ts i = filter (\<lambda>t. date t = dateString e i) ts"

function streakLoop :: "env \<Rightarrow> task list \<Rightarrow> int \<Rightarrow> nat \<Rightarrow> int \<Rightarrow> bool" where
  "streakLoop e ts requiredDays i streak =
     (if i < 365 then
        (if length (dayTasks e ts i) = 0 then streakLoop e ts requiredDays (Suc i) streak
         else if list_all completed (dayTasks e ts i) then
           (if streak + 1 \<ge> requiredDays then True
            else streakLoop e ts requiredDays (Suc i) (streak + 1))
         else False)
      else False)"
  by pat_completeness auto
termination
  by (relation "measure (\<lambda>(e, ts, requiredDays, i, streak). 365 - i)") auto

definition checkCompletionStreak :: "env \<Rightarrow> task list \<Rightarrow> int \<Rightarrow> bool" where
  "checkCompletionStreak e ts requiredDays = streakLoop e ts requiredDays 0 0"

text \<open>
  A badge definition of the catalog. The condition is a closure over the manager and the
  clock, so the catalog is a function of \<open>env\<close>. The icons are emoji in the source; an
  ASCII name stands for each.
\<close>

record badgeDef =
  def_id :: string
  def_title :: string
  def_description :: string
  def_icon :: string
  def_category :: string
  condition :: "stats \<Rightarrow> task list \<Rightarrow> bool"

definition truthy_string :: "string option \<Rightarrow> bool" where
  "truthy_string s = (case s of None \<Rightarrow> False | Some v \<Rightarrow> v \<noteq> [])"

definition completedAtHour :: "env \<Rightarrow> task \<Rightarrow> nat option" where
  "completedAtHour e t = (case completedAt t of None \<Rightarrow> None | Some s \<Rightarrow> getHours e s)"

definition dailyCompletion :: "env \<Rightarrow> badgeDef" where
  "dailyCompletion e =
     \<lparr>def_id = ''dailyCompletion'', def_title = ''Daily Champion'',
      def_description = ''Complete all tasks in a single day'',
      def_icon = ''trophy'', def_category = ''daily'',
      condition = (\<lambda>userStats ts.
        (let today = split_T0 (nowIso e);
             todayTasks = filter (\<lambda>t. date t = today) ts
         in length todayTasks > 0 \<and> list_all completed todayTasks))\<rparr>"

definition badgeDefinitions :: "env \<Rightarrow> badgeDef list" where
  "badgeDefinitions e =
     [\<lparr>def_id = ''firstTask'', def_title = ''Getting Started'',
       def_description = ''Complete your first task'',
       def_icon = ''dart'', def_category = ''milestone'',
       condition = (\<lambda>userStats ts. completedTasks userStats \<ge> 1)\<rparr>,
      dailyCompletion e,
      \<lparr>def_id = ''streak3'', def_title = ''On Fire'',
       def_description = ''Complete all tasks for 3 consecutive days'',
       def_icon = ''fire'', def_category = ''streak'',
       condition = (\<lambda>userStats ts. checkCompletionStreak e ts 3)\<rparr>,
      \<lparr>def_id = ''streak7'', def_title = ''Unstoppable'',
       def_description = ''Complete all tasks for 7 consecutive days'',
       def_icon = ''zap'', def_category = ''streak'',
       condition = (\<lambda>userStats ts. checkCompletionStreak e ts 7)\<rparr>,
      \<lparr>def_id = ''earlyBird'', def_title = ''Early Bird'',
       def_description = ''Complete a task before 7 AM'',
       def_icon = ''bird'', def_category = ''time'',
       condition = (\<lambda>userStats ts. list_ex (\<lambda>t.
          if \<not> completed t \<or> \<not> truthy_string (completedAt t) then False
          else (case completedAtHour e t of None \<Rightarrow> False | Some h \<Rightarrow> h < 7)) ts)\<rparr>,
      \<lparr>def_id = ''nightOwl'', def_title = ''Night Owl'',
       def_description = ''Complete a task after 10 PM'',
       def_icon = ''owl'', def_category = ''time'',
       condition = (\<lambda>userStats ts. list_ex (\<lambda>t.
          if \<not> completed t \<or> \<not> truthy_string (completedAt t) then False
          else (case completedAtHour e t of None \<Rightarrow> False | Some h \<Rightarrow> h \<ge> 22)) ts)\<rparr>,
      \<lparr>def_id = ''taskMaster'', def_title = ''Task Master'',
       def_description = ''Complete 50 tasks total'',
       def_icon = ''mortar_board'', def_category = ''milestone'',
       condition = (\<lambda>userStats ts. completedTasks userStats \<ge> 50)\<rparr>,
      \<lparr>def_id = ''prioritizer'', def_title = ''Priority Master'',
       def_description = ''Complete 10 high-priority tasks'',
       def_icon = ''performing_arts'', def_category = ''priority'',
       condition = (\<lambda>userStats ts.
          length (filter (\<lambda>t. completed t \<and> priority t = ''high'') ts) \<ge> 10)\<rparr>,
      \<lparr>def_id = ''organizer'', def_title = ''Super Organizer'',
       def_description = ''Have 20 tasks scheduled in advance'',
       def_icon = ''clipboard'', def_category = ''planning'',
       condition = (\<lambda>userStats ts.
          length (filter (\<lambda>t. afterToday e (date t)) ts) \<ge> 20)\<rparr>,
      \<lparr>def_id = ''weekendWarrior'', def_title = ''Weekend Warrior'',
       def_description = ''Complete tasks on both Saturday and Sunday'',
       def_icon = ''weight_lifter'', def_category = ''weekend'',
       condition = (\<lambda>userStats ts.
          (let weekendTasks = filter (\<lambda>t.
                 (getDay e (date t) = Some 0 \<or> getDay e (date t) = Some 6) \<and> completed t) ts;
               saturdayCompleted = list_ex (\<lambda>t. getDay e (date t) = Some 6) weekendTasks;
               sundayCompleted = list_ex (\<lambda>t. getDay e (date t) = Some 0) weekendTasks
           in saturdayCompleted \<and> sundayCompleted))\<rparr>]"

text \<open>
  awardBadge copies the definition, sets earnedAt and hands the badge to addBadge. The
  condition is a function, which JSON.stringify leaves out, so the stored badge has the
  seven fields of \<open>badge\<close>. What awardBadge does when addBadge returned a badge
  (the notification, the celebration, the re-rendering) changes no stored data.
\<close>

definition badge_of_def :: "badgeDef \<Rightarrow> env \<Rightarrow> badge" where
  "badge_of_def bd e =
     \<lparr>badge_id = def_id bd, badge_userId = None, badge_title = def_title bd,
      badge_description = def_description bd, badge_icon = def_icon bd,
      badge_category = def_category bd, earnedAt = nowIso e\<rparr>"

definition awardBadge :: "badgeDef \<Rightarrow> env \<Rightarrow> data \<Rightarrow> data" where
  "awardBadge bd e d = snd (addBadge (badge_of_def bd e) e d)"

text \<open>
  checkAllBadges reads the tasks, the statistics and the ids of the user's badges once,
  then walks the definitions in the catalog's order.
\<close>

definition checkBadges :: "badgeDef list \<Rightarrow> env \<Rightarrow> data \<Rightarrow> data" where
  "checkBadges defs e d =
     (let ts = getTasks d;
          userStats = getTaskStats e d;
          currentBadgeIds = map badge_id (getBadges d)
      in foldl (\<lambda>acc badgeDef.
                  if def_id badgeDef \<in> set currentBadgeIds then acc
                  else if condition badgeDef userStats ts then awardBadge badgeDef e acc
                  else acc) d defs)"

definition checkAllBadges :: "env \<Rightarrow> data \<Rightarrow> data" where
  "checkAllBadges e d = checkBadges (badgeDefinitions e) e d"

definition checkDailyCompletionBadge :: "env \<Rightarrow> data \<Rightarrow> data" where
  "checkDailyCompletionBadge e d =
     (let ts = getTasks d;
          today = split_T0 (nowIso e);
          todayTasks = filter (\<lambda>t. date t = today) ts
      in if length todayTasks > 0 \<and> list_all completed todayTasks then
           (let currentBadges = getBadges d;
                todayBadge = find (\<lambda>b. badge_id b = ''dailyCompletion'' \<and>
                                        split_T0 (earnedAt b) = today) currentBadges
            in if todayBadge = None then awardBadge (dailyCompletion e) e d else d)
         else d)"

subsection \<open>StorageManager: users\<close>

text \<open>
  \<open>data.users[name]\<close> reads a property of a plain object: the stored user when the
  object has the property itself, else what every object inherits from Object.prototype
  under that name (a function, or the prototype object for \<open>__proto__\<close>), else undefined.
\<close>

definition Object_prototype_names :: "string list" where
  "Object_prototype_names =
     [''constructor'', ''hasOwnProperty'', ''isPrototypeOf'', ''propertyIsEnumerable'',
      ''toLocaleString'', ''toString'', ''valueOf'', ''__proto__'',
      ''__defineGetter__'', ''__defineSetter__'', ''__lookupGetter__'', ''__lookupSetter__'']"

datatype 'a property = Own 'a | Inherited | Undefined

definition users_get :: "data \<Rightarrow> string \<Rightarrow> user property" where
  "users_get d name =
     (case users d name of
        Some u \<Rightarrow> Own u
      | None \<Rightarrow> if name \<in> set Object_prototype_names then Inherited else Undefined)"

text \<open>An object or a function is truthy, undefined and null are not.\<close>

definition truthy :: "'a property \<Rightarrow> bool" where
  "truthy p = (p \<noteq> Undefined)"

text \<open>\<open>user.passwordHash\<close>: undefined (None) on an inherited function or object.\<close>

definition passwordHash_of :: "user property \<Rightarrow> string option" where
  "passwordHash_of p = (case p of Own u \<Rightarrow> Some (passwordHash u) | _ \<Rightarrow> None)"

text \<open>
  addUser gets the object \<open>{username, displayName, passwordHash}\<close> and adds createdAt;
  the \<open>user_createdAt\<close> of its argument is not read.
\<close>

definition addUser :: "user \<Rightarrow> env \<Rightarrow> data \<Rightarrow> bool \<times> data" where
  "addUser userData e d =
     (if truthy (users_get d (username userData)) then (False, d)
      else (True, d\<lparr>users := (users d)(username userData \<mapsto> userData\<lparr>user_createdAt := nowIso e\<rparr>)\<rparr>))"

definition getUser :: "data \<Rightarrow> string \<Rightarrow> user property" where
  "getUser d name = users_get d name"

definition setCurrentUser :: "string option \<Rightarrow> data \<Rightarrow> bool \<times> data" where
  "setCurrentUser name d = (True, d\<lparr>currentUser := name\<rparr>)"

subsection \<open>AuthManager\<close>

text \<open>
  hashPassword keeps a 32-bit integer: \<open>hash << 5\<close> and \<open>hash & hash\<close> both convert to
  int32, and the subtraction and addition between them are exact, so each step is word
  arithmetic. The result is the decimal text of the signed value. A character is read by
  charCodeAt; the model's characters are the code units below 256.
\<close>

definition hashStep :: "32 word \<Rightarrow> char \<Rightarrow> 32 word" where
  "hashStep hash c = (push_bit 5 hash - hash) + of_nat (of_char c)"

definition toStringInt :: "int \<Rightarrow> string" where
  "toStringInt i = (if i < 0 then CHR ''-'' # toStringNat (nat (- i)) else toStringNat (nat i))"

definition hashPassword :: "string \<Rightarrow> string" where
  "hashPassword password = toStringInt (sint (foldl hashStep 0 password))"

datatype error = Error string

record auth =
  currentSession :: "string option"
  storage :: data

text \<open>
  login and register return their value or the Error they throw, together with the state
  afterwards.
\<close>

definition login :: "string \<Rightarrow> string \<Rightarrow> auth \<Rightarrow> (error + bool) \<times> auth" where
  "login uname password s =
     (if uname = [] \<or> password = [] then
        (Inl (Error ''Username and password are required''), s)
      else if \<not> truthy (getUser (storage s) uname) then
        (Inl (Error ''Invalid username or password''), s)
      else if passwordHash_of (getUser (storage s) uname) \<noteq> Some (hashPassword password) then
        (Inl (Error ''Invalid username or password''), s)
      else
        (Inr True, s\<lparr>currentSession := Some uname,
                     storage := snd (setCurrentUser (Some uname) (storage s))\<rparr>))"

definition register :: "string \<Rightarrow> string \<Rightarrow> string \<Rightarrow> env \<Rightarrow> auth \<Rightarrow> (error + bool) \<times> auth" where
  "register uname password dname e s =
     (if uname = [] \<or> password = [] \<or> dname = [] then
        (Inl (Error ''All fields are required''), s)
      else if length uname < 3 then
        (Inl (Error ''Username must be at least 3 characters''), s)
      else if length password < 6 then
        (Inl (Error ''Password must be at least 6 characters''), s)
      else if truthy (getUser (storage s) uname) then
        (Inl (Error ''Username already exists''), s)
      else
        (let userData = \<lparr>username = uname, displayName = dname,
                          passwordHash = hashPassword password, user_createdAt = []\<rparr>;
             added = addUser userData e (storage s)
         in if fst added then login uname password (s\<lparr>storage := snd added\<rparr>)
            else (Inl (Error ''Failed to create account''), s\<lparr>storage := snd added\<rparr>)))"

subsection \<open>NotificationManager: reminders\<close>

text \<open>
  A pending timeout of the window: its delay and the tag of the notification its callback
  shows. \<open>scheduledNotifications\<close> is the Map from key to timer handle, kept in insertion
  order; \<open>timers\<close> are the pending timeouts by handle; setTimeout returns a new handle.
\<close>

record timer =
  delay :: int
  tag :: string

record notifier =
  scheduledNotifications :: "(string \<times> nat) list"
  timers :: "nat \<rightharpoonup> timer"
  nextHandle :: nat

definition setTimeout :: "timer \<Rightarrow> notifier \<Rightarrow> nat \<times> notifier" where
  "setTimeout t n =
     (nextHandle n, n\<lparr>timers := (timers n)(nextHandle n \<mapsto> t), nextHandle := Suc (nextHandle n)\<rparr>)"

definition clearTimeout :: "nat \<Rightarrow> notifier \<Rightarrow> notifier" where
  "clearTimeout h n = n\<lparr>timers := (timers n)(h := None)\<rparr>"

definition notificationKeys :: "string \<Rightarrow> string list" where
  "notificationKeys taskId = [taskId @ ''-1h'', taskId @ ''-5m'', taskId @ ''-start'']"

definition cancelKey :: "string \<Rightarrow> notifier \<Rightarrow> notifier" where
  "cancelKey key n =
     (case map_of (scheduledNotifications n) key of
        Some h \<Rightarrow> (clearTimeout h n)\<lparr>scheduledNotifications :=
                     AList.delete key (scheduledNotifications n)\<rparr>
      | None \<Rightarrow> n)"

definition cancelTaskNotifications :: "string \<Rightarrow> notifier \<Rightarrow> notifier" where
  "cancelTaskNotifications taskId n = fold cancelKey (notificationKeys taskId) n"

text \<open>
  One reminder of scheduleTaskNotifications: \<open>target\<close> is the instant of the reminder
  (None for an Invalid Date, for which \<open>target > now\<close> is false). When the instant is
  after now, a timeout is set and stored under the key.
\<close>

definition scheduleAt :: "int option \<Rightarrow> int \<Rightarrow> string \<Rightarrow> string \<Rightarrow> notifier \<Rightarrow> notifier" where
  "scheduleAt target now key tg n =
     (case target of
        None \<Rightarrow> n
      | Some t \<Rightarrow>
          if t > now then
            (let r = setTimeout \<lparr>delay = t - now, tag = tg\<rparr> n
             in (snd r)\<lparr>scheduledNotifications :=
                  AList.update key (fst r) (scheduledNotifications (snd r))\<rparr>)
          else n)"

definition scheduleTaskNotifications :: "env \<Rightarrow> task option \<Rightarrow> notifier \<Rightarrow> notifier" where
  "scheduleTaskNotifications e taskOpt n =
     (case taskOpt of
        None \<Rightarrow> n
      | Some t \<Rightarrow>
          if completed t then n
          else
            (let taskDateTime = parseDate e (date t @ ''T'' @ startTime t);
                 now = int (nowMs e);
                 n0 = cancelTaskNotifications (task_id t) n;
                 oneHourBefore = map_option (\<lambda>x. x - 60 * 60 * 1000) taskDateTime;
                 n1 = scheduleAt oneHourBefore now (task_id t @ ''-1h'')
                        (''task-1h-'' @ task_id t) n0;
                 fiveMinutesBefore = map_option (\<lambda>x. x - 5 * 60 * 1000) taskDateTime;
                 n2 = scheduleAt fiveMinutesBefore now (task_id t @ ''-5m'')
                        (''task-5m-'' @ task_id t) n1
             in scheduleAt taskDateTime now (task_id t @ ''-start'')
                  (''task-start-'' @ task_id t) n2))"

definition clearAllNotifications :: "notifier \<Rightarrow> notifier" where
  "clearAllNotifications n =
     (fold (\<lambda>kv. clearTimeout (snd kv)) (scheduledNotifications n) n)\<lparr>scheduledNotifications := []\<rparr>"

definition scheduleAllTaskNotifications :: "env \<Rightarrow> data \<Rightarrow> notifier \<Rightarrow> notifier" where
  "scheduleAllTaskNotifications e d n =
     (let ts = getTasks d;
          incompleteTasks = filter (\<lambda>t. \<not> completed t) ts
      in fold (\<lambda>t. scheduleTaskNotifications e (Some t)) incompleteTasks (clearAllNotifications n))"

subsection \<open>StorageManager: reading the slot\<close>

text \<open>
  getData on the raw slot. The slot holds nothing (getItem returns null), a text that
  JSON.parse rejects, or a JSON text; a JSON text is kept as the value JSON.parse returns
  for it, and JSON.stringify followed by JSON.parse gives a value back unchanged. Numbers
  are the integers (the document holds none).
\<close>

datatype jsonv =
  JNull | JBool bool | JNum int | JStr string | JArr "jsonv list" | JObj "(string \<times> jsonv) list"

datatype slot = Missing | Malformed string | Json jsonv

definition initialData :: jsonv where
  "initialData =
     JObj [(''users'', JObj []),
           (''currentUser'', JNull),
           (''tasks'', JArr []),
           (''badges'', JArr []),
           (''settings'', JObj [(''theme'', JStr ''light''), (''notifications'', JBool True)])]"

definition initializeStorage :: "slot \<Rightarrow> slot" where
  "initializeStorage sl = Json initialData"

text \<open>The values for which \<open>v || {}\<close> is \<open>{}\<close>.\<close>

definition falsy :: "jsonv \<Rightarrow> bool" where
  "falsy v = (v = JNull \<or> v = JBool False \<or> v = JNum 0 \<or> v = JStr [])"

text \<open>
  JSON.parse(null) parses the text \<open>null\<close>. A text that JSON.parse rejects throws; the
  handler initializes the slot and calls getData again.
\<close>

function getData :: "slot \<Rightarrow> jsonv \<times> slot" where
  "getData Missing = (JObj [], Missing)"
| "getData (Json v) = (if falsy v then JObj [] else v, Json v)"
| "getData (Malformed s) = getData (initializeStorage (Malformed s))"
  by pat_completeness auto
termination
  by (relation "measure (\<lambda>sl. case sl of Malformed s \<Rightarrow> 1 | _ \<Rightarrow> 0)")
     (auto simp: initializeStorage_def)

subsection \<open>Stating the properties; example inputs\<close>

text \<open>The tasks of a list that carry a given id, and the badges a user holds under an id.\<close>

definition withId :: "string \<Rightarrow> task list \<Rightarrow> task list" where
  "withId i ts = filter (\<lambda>t. task_id t = i) ts"

definition badgesOf :: "string \<Rightarrow> string option \<Rightarrow> badge list \<Rightarrow> badge list" where
  "badgesOf i u bs = filter (\<lambda>b. badge_id b = i \<and> badge_userId b = u) bs"

text \<open>
  The typed reading of the document that initializeStorage writes, a clock reading on a
  device whose time zone is UTC, and the object handleAddTask builds from the form (the
  fields that addTask sets are left empty).
\<close>

definition emptyData :: data where
  "emptyData = \<lparr>users = Map.empty, currentUser = None, tasks = [], badges = [],
                 settings = \<lparr>theme = ''light'', notifications = True\<rparr>\<rparr>"

definition clock :: "nat \<Rightarrow> string \<Rightarrow> env" where
  "clock ms stamp =
     \<lparr>nowMs = ms, nowIso = stamp, random36 = ''k3x9f'',
      tzaUtc = (\<lambda>t. 0), tzaLocal = (\<lambda>t. 0),
      getHours = (\<lambda>s. None), getDay = (\<lambda>s. None), afterToday = (\<lambda>s. False),
      parseDate = (\<lambda>s. None)\<rparr>"

definition formTask :: "string \<Rightarrow> string \<Rightarrow> string \<Rightarrow> task" where
  "formTask ttl dt st =
     \<lparr>task_id = [], userId = None, title = ttl, description = [], priority = ''medium'',
      date = dt, startTime = st, endTime = ''23:59'', createdAt = [], completed = False,
      completedAt = None\<rparr>"

definition storedTask :: "string \<Rightarrow> string \<Rightarrow> string \<Rightarrow> bool \<Rightarrow> task" where
  "storedTask i dt st fin =
     (formTask ''Write report'' dt st)\<lparr>task_id := i, userId := Some ''alice'',
        createdAt := ''2024-01-01T08:00:00.000Z'', completed := fin,
        completedAt := (if fin then Some (dt @ ''T09:30:00.000Z'') else None)\<rparr>"

definition aliceData :: "task list \<Rightarrow> badge list \<Rightarrow> data" where
  "aliceData ts bs = emptyData\<lparr>currentUser := Some ''alice'', tasks := ts, badges := bs\<rparr>"

text \<open>The tasks of a day, and the dailyCompletion badge earned on a day, if any.\<close>

definition tasksDated :: "string \<Rightarrow> task list \<Rightarrow> task list" where
  "tasksDated day ts = filter (\<lambda>t. date t = day) ts"

definition dailyBadgeOn :: "string \<Rightarrow> badge list \<Rightarrow> badge option" where
  "dailyBadgeOn day bs =
     find (\<lambda>b. badge_id b = ''dailyCompletion'' \<and> split_T0 (earnedAt b) = day) bs"

text \<open>
  Two days of one user: on 2 January her only task of the day is completed and
  checkDailyCompletionBadge runs; on 3 January a second task, dated that day, is stored
  completed.
\<close>

definition afterDayOne :: data where
  "afterDayOne = checkDailyCompletionBadge (clock 1704218400000 ''2024-01-02T18:00:00.000Z'')
     (aliceData [storedTask ''t1'' ''2024-01-02'' ''09:00'' True] [])"

definition dayTwo :: data where
  "dayTwo = afterDayOne\<lparr>tasks := tasks afterDayOne @
     [storedTask ''t2'' ''2024-01-03'' ''09:00'' True]\<rparr>"

text \<open>A directory with one account, whose password is \<open>secret1\<close>.\<close>

definition aliceAuth :: auth where
  "aliceAuth = \<lparr>currentSession = None,
     storage = emptyData\<lparr>users := [''alice'' \<mapsto>
       \<lparr>username = ''alice'', displayName = ''Alice'', passwordHash = ''1970177921'',
        user_createdAt = ''2024-01-01T08:00:00.000Z''\<rparr>]\<rparr>\<rparr>"

text \<open>
  The reminder keys of a task that are in the Map, in the order 1h, 5m, start; the start
  instant of a task as scheduleTaskNotifications reads it; and the test
  \<open>target > now\<close> on an instant that may be an Invalid Date.
\<close>

definition pendingKinds :: "string \<Rightarrow> notifier \<Rightarrow> string list" where
  "pendingKinds taskId n =
     filter (\<lambda>k. map_of (scheduledNotifications n) k \<noteq> None) (notificationKeys taskId)"

definition startInstant :: "env \<Rightarrow> task \<Rightarrow> int option" where
  "startInstant e t = parseDate e (date t @ ''T'' @ startTime t)"

definition future :: "int option \<Rightarrow> int \<Rightarrow> bool" where
  "future target now = (case target of None \<Rightarrow> False | Some x \<Rightarrow> x > now)"

text \<open>
  A clock at 10:00 on 2 January 2024 with the three start instants of the examples, and
  a notifier with no reminder.
\<close>

definition parseExample :: "string \<Rightarrow> int option" where
  "parseExample s =
     (if s = ''2024-01-02T12:00'' then Some 1704196800000
      else if s = ''2024-01-02T10:30'' then Some 1704191400000
      else if s = ''2024-01-02T09:00'' then Some 1704186000000
      else None)"

definition reminderEnv :: env where
  "reminderEnv = (clock 1704189600000 ''2024-01-02T10:00:00.000Z'')\<lparr>parseDate := parseExample\<rparr>"

definition noTimers :: notifier where
  "noTimers = \<lparr>scheduledNotifications = [], timers = Map.empty, nextHandle = 1\<rparr>"

text \<open>checkAllBadges run again and again, once for each clock reading of the list.\<close>

definition rerun :: "env list \<Rightarrow> data \<Rightarrow> data" where
  "rerun es d = fold checkAllBadges es d"







text \<open>
  A badge alice holds; and a clock at 10:00 UTC on 5 January 2024 with the two task lists
  of the streak examples: three completed days after a day without tasks, and two
  completed days after a day with an incomplete task.
\<close>

definition firstTaskBadge :: badge where
  "firstTaskBadge =
     \<lparr>badge_id = ''firstTask'', badge_userId = Some ''alice'', badge_title = ''Getting Started'',
      badge_description = ''Complete your first task'', badge_icon = ''dart'',
      badge_category = ''milestone'', earnedAt = ''2024-01-02T09:30:00.000Z''\<rparr>"








section \<open>Properties\<close>

subsection \<open>Lists: findIndex\<close>



subsection \<open>Task Ledger\<close>





text \<open>
  Claim C6, as the spec states it, fails where it promises an id distinct from all
  existing ids: generateId reads only the clock and the random draw, and addTask does not
  compare its result with the stored ids. Two calls that read the same millisecond and
  the same draw store two tasks with one id, and listTasks then holds two tasks with it.
\<close>

theorem addTask_id_collision_counterexample:
  "task_id (fst (addTask (formTask ''B'' ''2024-01-03'' ''10:00'')
        (clock 1704189600000 ''2024-01-02T10:00:00.000Z'')
        (snd (addTask (formTask ''A'' ''2024-01-02'' ''09:00'')
           (clock 1704189600000 ''2024-01-02T10:00:00.000Z'') (aliceData [] [])))))
   \<in> task_id ` set (tasks (snd (addTask (formTask ''A'' ''2024-01-02'' ''09:00'')
           (clock 1704189600000 ''2024-01-02T10:00:00.000Z'') (aliceData [] [])))) \<and>
   length (withId (generateId (clock 1704189600000 ''2024-01-02T10:00:00.000Z''))
     (getTasks (snd (addTask (formTask ''B'' ''2024-01-03'' ''10:00'')
        (clock 1704189600000 ''2024-01-02T10:00:00.000Z'')
        (snd (addTask (formTask ''A'' ''2024-01-02'' ''09:00'')
           (clock 1704189600000 ''2024-01-02T10:00:00.000Z'') (aliceData [] []))))))) = 2"
  by (simp add: addTask_def getTasks_def withId_def Let_def aliceData_def emptyData_def
      formTask_def)

text \<open>
  Claim C6, amended: for every task input, clock reading and document, addTask gives the
  task the id that generateId computes from the clock and the random draw (with no check
  against the stored ids), stamps userId = the current session, createdAt = now and
  completed = false, keeps the input's other fields, appends the task and returns it. A
  following listTasks is the earlier list with that task at its end; it holds one more
  task with that id than before, so exactly that one whenever the generated id was not
  yet the id of a stored task.
\<close>

theorem addTask_generated_id:
  "(case addTask inp e d of (t, d') \<Rightarrow>
      t = inp\<lparr>task_id := generateId e, userId := currentUser d,
             createdAt := nowIso e, completed := False\<rparr> \<and>
      tasks d' = tasks d @ [t] \<and>
      currentUser d' = currentUser d \<and>
      getTasks d' = getTasks d @ [t] \<and>
      length (withId (generateId e) (getTasks d')) =
        Suc (length (withId (generateId e) (getTasks d))) \<and>
      (generateId e \<notin> task_id ` set (tasks d) \<longrightarrow> withId (generateId e) (getTasks d') = [t]))"
proof -
  have "generateId e \<notin> task_id ` set (tasks d) \<Longrightarrow>
        filter (\<lambda>t. task_id t = generateId e)
          (filter (\<lambda>t. userId t = currentUser d) (tasks d)) = []"
    by (force simp: filter_empty_conv)
  then show ?thesis
    by (simp add: addTask_def getTasks_def withId_def Let_def)
qed

theorem addTask_generated_id_witness:
  "generateId (clock 1704189600000 ''2024-01-02T10:00:00.000Z'')
     \<notin> task_id ` set (tasks (aliceData [storedTask ''t1'' ''2024-01-02'' ''09:00'' False] [])) \<and>
   length (withId (generateId (clock 1704189600000 ''2024-01-02T10:00:00.000Z''))
     (getTasks (snd (addTask (formTask ''A'' ''2024-01-02'' ''09:00'')
        (clock 1704189600000 ''2024-01-02T10:00:00.000Z'')
        (aliceData [storedTask ''t1'' ''2024-01-02'' ''09:00'' False] []))))) = 1"
proof -
  let ?e = "clock 1704189600000 ''2024-01-02T10:00:00.000Z''"
  let ?d = "aliceData [storedTask ''t1'' ''2024-01-02'' ''09:00'' False] []"
  let ?r = "addTask (formTask ''A'' ''2024-01-02'' ''09:00'') ?e ?d"
  have "length (generateId ?e) \<ge> 5"
    by (simp add: generateId_def clock_def)
  then have fresh: "generateId ?e \<notin> task_id ` set (tasks ?d)"
    by (auto simp: aliceData_def storedTask_def formTask_def emptyData_def)
  have "generateId ?e \<notin> task_id ` set (tasks ?d) \<longrightarrow>
        withId (generateId ?e) (getTasks (snd ?r)) = [fst ?r]"
    using addTask_generated_id [where inp = "formTask ''A'' ''2024-01-02'' ''09:00''"
      and e = ?e and d = ?d]
    unfolding case_prod_beta by blast
  with fresh have "withId (generateId ?e) (getTasks (snd ?r)) = [fst ?r]"
    by blast
  then have "length (withId (generateId ?e) (getTasks (snd ?r))) = 1"
    by simp
  with fresh show ?thesis by blast
qed

subsection \<open>Persistence Store\<close>

lemma not_falsy_initialData: "\<not> falsy initialData"
  by (simp add: falsy_def initialData_def)

text \<open>
  Claim C7, as the spec states it, fails for a stored blob that is JSON but not a document:
  the text \<open>{}\<close> parses, so getData returns the empty object, which is not the canonical
  empty document, and the slot is not initialized again.
\<close>

theorem getData_wrong_shape_counterexample:
  "getData (Json (JObj [])) = (JObj [], Json (JObj [])) \<and> JObj [] \<noteq> initialData"
  by (simp add: falsy_def initialData_def)

text \<open>
  Claim C7, amended: for every stored blob that is malformed JSON (JSON.parse throws),
  getData initializes the slot again and returns the canonical empty document: empty
  users, tasks and badges, null current user, default settings. A blob that parses is
  not checked against the document's shape: it is returned as parsed, or as the empty
  object when it parses to a falsy value or when the slot is missing, and the slot is
  left as it is.
\<close>

theorem getData_parse_error_only:
  "getData (Malformed s) = (initialData, Json initialData) \<and>
   initialData = JObj [(''users'', JObj []), (''currentUser'', JNull), (''tasks'', JArr []),
                       (''badges'', JArr []),
                       (''settings'', JObj [(''theme'', JStr ''light''),
                                            (''notifications'', JBool True)])] \<and>
   getData (Json v) = (if falsy v then JObj [] else v, Json v) \<and>
   getData Missing = (JObj [], Missing)"
  by (simp add: initializeStorage_def not_falsy_initialData) (simp add: initialData_def)

subsection \<open>Account Directory\<close>

text \<open>
  What register does on every input whose username is not the name of a property that
  objects inherit: the three validation errors in the source's order, the conflict error
  for a stored username, and otherwise the stored user with the hashed password and the
  session set. No error changes the state.
\<close>

lemma register_contract:
  "(uname = [] \<or> password = [] \<or> dname = [] \<longrightarrow>
      register uname password dname e s = (Inl (Error ''All fields are required''), s)) \<and>
   (uname \<noteq> [] \<and> password \<noteq> [] \<and> dname \<noteq> [] \<and> length uname < 3 \<longrightarrow>
      register uname password dname e s =
        (Inl (Error ''Username must be at least 3 characters''), s)) \<and>
   (dname \<noteq> [] \<and> length uname \<ge> 3 \<and> length password < 6 \<and> password \<noteq> [] \<longrightarrow>
      register uname password dname e s =
        (Inl (Error ''Password must be at least 6 characters''), s)) \<and>
   (dname \<noteq> [] \<and> length uname \<ge> 3 \<and> length password \<ge> 6 \<and>
      users (storage s) uname \<noteq> None \<longrightarrow>
      register uname password dname e s = (Inl (Error ''Username already exists''), s)) \<and>
   (dname \<noteq> [] \<and> length uname \<ge> 3 \<and> length password \<ge> 6 \<and>
      users (storage s) uname = None \<and> uname \<notin> set Object_prototype_names \<longrightarrow>
      register uname password dname e s =
        (Inr True,
         s\<lparr>currentSession := Some uname,
           storage := (storage s)\<lparr>users := (users (storage s))(uname \<mapsto>
               \<lparr>username = uname, displayName = dname,
                passwordHash = hashPassword password, user_createdAt = nowIso e\<rparr>),
             currentUser := Some uname\<rparr>\<rparr>))"
  by (auto simp: register_def login_def getUser_def users_get_def truthy_def addUser_def
      setCurrentUser_def passwordHash_of_def Let_def)

text \<open>
  Claim C8: register fails with a validation error on an empty field, a username shorter
  than 3 or a password shorter than 6, with a conflict error when the username is already
  present, and otherwise stores the user and logs in. The code breaks the last part: on
  the empty directory, where no username is present, registering the valid username
  \<open>constructor\<close> throws \<open>Username already exists\<close> and stores nothing, because
  \<open>data.users[username]\<close> finds the function every object inherits under that name.
\<close>

theorem register_inherited_name_rejected:
  "users emptyData ''constructor'' = None \<and>
   register ''constructor'' ''secret1'' ''Connie''
     (clock 1704189600000 ''2024-01-02T10:00:00.000Z'')
     \<lparr>currentSession = None, storage = emptyData\<rparr>
   = (Inl (Error ''Username already exists''), \<lparr>currentSession = None, storage = emptyData\<rparr>)"
  by (simp add: register_def getUser_def users_get_def truthy_def emptyData_def
      Object_prototype_names_def)

text \<open>
  Claim C9: login fails with the same generic message when the username is absent and
  when the password hash does not match, and on success sets the session to the username.
  With a non-empty username and password both failures throw \<open>Invalid username or
  password\<close> and change nothing; for every input, also an empty one, the error for an
  absent username is the error for a stored username with another hash; and when the
  hashes agree the session and the stored current user become the username.
\<close>

theorem login_contract:
  "(users (storage s) uname = None \<and> uname \<noteq> [] \<and> password \<noteq> [] \<longrightarrow>
      login uname password s = (Inl (Error ''Invalid username or password''), s)) \<and>
   (users (storage s) uname = Some u \<and> passwordHash u \<noteq> hashPassword password \<and>
      uname \<noteq> [] \<and> password \<noteq> [] \<longrightarrow>
      login uname password s = (Inl (Error ''Invalid username or password''), s)) \<and>
   (users (storage s1) uname = None \<and> users (storage s2) uname = Some u \<and>
      passwordHash u \<noteq> hashPassword password \<longrightarrow>
      (\<exists>err. login uname password s1 = (Inl err, s1) \<and> login uname password s2 = (Inl err, s2))) \<and>
   (users (storage s) uname = Some u \<and> passwordHash u = hashPassword password \<and>
      uname \<noteq> [] \<and> password \<noteq> [] \<longrightarrow>
      login uname password s =
        (Inr True, s\<lparr>currentSession := Some uname,
                     storage := (storage s)\<lparr>currentUser := Some uname\<rparr>\<rparr>))"
  by (auto simp: login_def getUser_def users_get_def truthy_def setCurrentUser_def
      passwordHash_of_def)

theorem login_contract_witness:
  "login ''bob'' ''secret1'' aliceAuth = (Inl (Error ''Invalid username or password''), aliceAuth) \<and>
   login ''alice'' ''wrong12'' aliceAuth = (Inl (Error ''Invalid username or password''), aliceAuth) \<and>
   login ''alice'' ''secret1'' aliceAuth =
     (Inr True, aliceAuth\<lparr>currentSession := Some ''alice'',
                          storage := (storage aliceAuth)\<lparr>currentUser := Some ''alice''\<rparr>\<rparr>)"
proof -
  let ?u = "\<lparr>username = ''alice'', displayName = ''Alice'', passwordHash = ''1970177921'',
        user_createdAt = ''2024-01-01T08:00:00.000Z''\<rparr>"
  have absent: "users (storage aliceAuth) ''bob'' = None"
    by (simp add: aliceAuth_def emptyData_def)
  have present: "users (storage aliceAuth) ''alice'' = Some ?u"
    by (simp add: aliceAuth_def emptyData_def)
  have good: "passwordHash ?u = hashPassword ''secret1''"
    by (simp add: hashPassword_def hashStep_def toStringInt_def digit10_def)
  have bad: "passwordHash ?u \<noteq> hashPassword ''wrong12''"
    by (simp add: hashPassword_def hashStep_def toStringInt_def digit10_def)
  show ?thesis
    using login_contract [where s = aliceAuth and uname = "''bob''" and password = "''secret1''"]
      login_contract [where s = aliceAuth and uname = "''alice''" and password = "''wrong12''"
        and u = ?u]
      login_contract [where s = aliceAuth and uname = "''alice''" and password = "''secret1''"
        and u = ?u]
      absent present good bad
    by simp
qed

subsection \<open>Achievement Engine: the daily badge\<close>

lemma addBadge_held:
  "badgesOf (badge_id b) (currentUser d) (badges d) \<noteq> [] \<Longrightarrow> addBadge b e d = (None, d)"
  by (auto simp: addBadge_def badgesOf_def filter_empty_conv find_None_iff split: option.splits)

text \<open>
  Once the user holds a dailyCompletion badge of any day, checkDailyCompletionBadge
  changes nothing: whatever its own test of today's date finds, addBadge refuses the id.
\<close>

lemma checkDaily_never_second:
  "badgesOf ''dailyCompletion'' (currentUser d) (badges d) \<noteq> [] \<Longrightarrow>
   checkDailyCompletionBadge e d = d"
  by (simp add: checkDailyCompletionBadge_def awardBadge_def Let_def
      addBadge_held badge_of_def_def dailyCompletion_def)

lemma afterDayOne_eq:
  "afterDayOne = aliceData [storedTask ''t1'' ''2024-01-02'' ''09:00'' True]
     [\<lparr>badge_id = ''dailyCompletion'', badge_userId = Some ''alice'',
       badge_title = ''Daily Champion'',
       badge_description = ''Complete all tasks in a single day'',
       badge_icon = ''trophy'', badge_category = ''daily'',
       earnedAt = ''2024-01-02T18:00:00.000Z''\<rparr>]"
  by (simp add: afterDayOne_def checkDailyCompletionBadge_def getTasks_def getBadges_def
      awardBadge_def addBadge_def badge_of_def_def dailyCompletion_def split_T0_def Let_def
      aliceData_def emptyData_def storedTask_def formTask_def clock_def)

text \<open>
  Claim C1: when every task dated today is completed, there is at least one, and the user
  has no dailyCompletion badge earned today, checkDailyCompletionBadge grants one, also to
  a user who holds one from an earlier day. The code breaks the claim for that user: the
  badge of 2 January is granted, and on 3 January, with the day's only task completed and
  no badge earned that day, checkDailyCompletionBadge leaves the document as it is.
\<close>

theorem no_second_daily_badge:
  "length (badgesOf ''dailyCompletion'' (Some ''alice'') (badges afterDayOne)) = 1 \<and>
   tasksDated ''2024-01-03'' (getTasks dayTwo) = [storedTask ''t2'' ''2024-01-03'' ''09:00'' True] \<and>
   list_all completed (tasksDated ''2024-01-03'' (getTasks dayTwo)) \<and>
   dailyBadgeOn ''2024-01-03'' (getBadges dayTwo) = None \<and>
   checkDailyCompletionBadge (clock 1704304800000 ''2024-01-03T18:00:00.000Z'') dayTwo = dayTwo"
  unfolding dayTwo_def afterDayOne_eq
  by (simp add: checkDailyCompletionBadge_def getTasks_def getBadges_def
      awardBadge_def addBadge_def badge_of_def_def dailyCompletion_def split_T0_def Let_def
      aliceData_def emptyData_def storedTask_def formTask_def clock_def badgesOf_def
      tasksDated_def dailyBadgeOn_def)

subsection \<open>Reminder Scheduler\<close>

lemma keys_cancelKey:
  "map_of (scheduledNotifications (cancelKey k n)) =
     (map_of (scheduledNotifications n))(k := None)"
  by (auto simp: cancelKey_def clearTimeout_def AList.delete_conv' split: option.splits)

lemma nextHandle_cancelKey: "nextHandle (cancelKey k n) = nextHandle n"
  by (simp add: cancelKey_def clearTimeout_def split: option.splits)

lemma keys_cancel:
  "map_of (scheduledNotifications (cancelTaskNotifications i n)) =
     (\<lambda>k. if k \<in> set (notificationKeys i) then None else map_of (scheduledNotifications n) k)"
  by (auto simp: cancelTaskNotifications_def notificationKeys_def keys_cancelKey)

lemma nextHandle_cancel: "nextHandle (cancelTaskNotifications i n) = nextHandle n"
  by (simp add: cancelTaskNotifications_def notificationKeys_def nextHandle_cancelKey)

lemma keys_scheduleAt:
  "map_of (scheduledNotifications (scheduleAt target now k tg n)) =
     (if future target now then (map_of (scheduledNotifications n))(k \<mapsto> nextHandle n)
      else map_of (scheduledNotifications n))"
  by (auto simp: scheduleAt_def future_def setTimeout_def AList.update_conv' split: option.splits)

lemma nextHandle_scheduleAt:
  "nextHandle (scheduleAt target now k tg n) =
     (if future target now then Suc (nextHandle n) else nextHandle n)"
  by (auto simp: scheduleAt_def future_def setTimeout_def  split: option.splits)

lemma timers_scheduleAt:
  "timers (scheduleAt target now k tg n) =
     (if future target now then (timers n)(nextHandle n \<mapsto> \<lparr>delay = the target - now, tag = tg\<rparr>)
      else timers n)"
  by (auto simp: scheduleAt_def future_def setTimeout_def  split: option.splits)

lemma schedule_pending:
  assumes "\<not> completed t"
  shows "pendingKinds (task_id t) (scheduleTaskNotifications e (Some t) n) =
           (if future (map_option (\<lambda>x. x - 3600000) (startInstant e t)) (int (nowMs e))
            then [task_id t @ ''-1h''] else []) @
           (if future (map_option (\<lambda>x. x - 300000) (startInstant e t)) (int (nowMs e))
            then [task_id t @ ''-5m''] else []) @
           (if future (startInstant e t) (int (nowMs e))
            then [task_id t @ ''-start''] else [])"
  using assms
  by (simp add: scheduleTaskNotifications_def pendingKinds_def startInstant_def Let_def
      keys_scheduleAt keys_cancel notificationKeys_def)

lemma schedule_count:
  assumes "\<not> completed t"
  shows "nextHandle (scheduleTaskNotifications e (Some t) n) =
          nextHandle n + length (pendingKinds (task_id t) (scheduleTaskNotifications e (Some t) n))"
  unfolding schedule_pending [OF assms]
  using assms
  by (simp add: scheduleTaskNotifications_def startInstant_def Let_def
      nextHandle_scheduleAt nextHandle_cancel)

text \<open>
  Claim C4, amended: for a task that is not completed, scheduleTaskNotifications leaves
  in the Map exactly the reminder kinds whose target instant (the start instant read from
  date and startTime, minus 60 minutes, 5 minutes, 0 minutes) is after now, one new
  timer for each and no other timer; past instants and an unreadable date are skipped.
  A task starting more than 60 minutes from now gets exactly the three timers, each
  with the delay to its instant; one starting more than 5 and at most 60 minutes from
  now (in 30 minutes, say) gets exactly the 5-minute and start timers; one that started
  already gets none. A completed task gets none whatever its start (claim C10).
\<close>

theorem scheduleTaskNotifications_reminders:
  "\<not> completed t \<longrightarrow>
   (let n' = scheduleTaskNotifications e (Some t) n; now = int (nowMs e);
        sched = map_of (scheduledNotifications n')
    in
     pendingKinds (task_id t) n' =
       (if future (map_option (\<lambda>x. x - 3600000) (startInstant e t)) now
        then [task_id t @ ''-1h''] else []) @
       (if future (map_option (\<lambda>x. x - 300000) (startInstant e t)) now
        then [task_id t @ ''-5m''] else []) @
       (if future (startInstant e t) now then [task_id t @ ''-start''] else []) \<and>
     nextHandle n' = nextHandle n + length (pendingKinds (task_id t) n') \<and>
     (\<forall>T. startInstant e t = Some T \<and> T - now > 3600000 \<longrightarrow>
        pendingKinds (task_id t) n' =
          [task_id t @ ''-1h'', task_id t @ ''-5m'', task_id t @ ''-start''] \<and>
        (\<exists>h1 h2 h3. sched (task_id t @ ''-1h'') = Some h1 \<and>
           sched (task_id t @ ''-5m'') = Some h2 \<and> sched (task_id t @ ''-start'') = Some h3 \<and>
           distinct [h1, h2, h3] \<and>
           timers n' h1 = Some \<lparr>delay = T - 3600000 - now, tag = ''task-1h-'' @ task_id t\<rparr> \<and>
           timers n' h2 = Some \<lparr>delay = T - 300000 - now, tag = ''task-5m-'' @ task_id t\<rparr> \<and>
           timers n' h3 = Some \<lparr>delay = T - now, tag = ''task-start-'' @ task_id t\<rparr>)) \<and>
     (\<forall>T. startInstant e t = Some T \<and> 300000 < T - now \<and> T - now \<le> 3600000 \<longrightarrow>
        pendingKinds (task_id t) n' = [task_id t @ ''-5m'', task_id t @ ''-start'']) \<and>
     (\<forall>T. startInstant e t = Some T \<and> T \<le> now \<longrightarrow> pendingKinds (task_id t) n' = []) \<and>
     (startInstant e t = None \<longrightarrow> pendingKinds (task_id t) n' = []))"
proof
  assume inc: "\<not> completed t"
  have p: "pendingKinds (task_id t) (scheduleTaskNotifications e (Some t) n) =
           (if future (map_option (\<lambda>x. x - 3600000) (startInstant e t)) (int (nowMs e))
            then [task_id t @ ''-1h''] else []) @
           (if future (map_option (\<lambda>x. x - 300000) (startInstant e t)) (int (nowMs e))
            then [task_id t @ ''-5m''] else []) @
           (if future (startInstant e t) (int (nowMs e))
            then [task_id t @ ''-start''] else [])"
    by (rule schedule_pending [OF inc])
  have c: "nextHandle (scheduleTaskNotifications e (Some t) n) =
          nextHandle n + length (pendingKinds (task_id t) (scheduleTaskNotifications e (Some t) n))"
    by (rule schedule_count [OF inc])
  have three: "\<exists>h1 h2 h3.
      map_of (scheduledNotifications (scheduleTaskNotifications e (Some t) n)) (task_id t @ ''-1h'') = Some h1 \<and>
      map_of (scheduledNotifications (scheduleTaskNotifications e (Some t) n)) (task_id t @ ''-5m'') = Some h2 \<and>
      map_of (scheduledNotifications (scheduleTaskNotifications e (Some t) n)) (task_id t @ ''-start'') = Some h3 \<and>
      distinct [h1, h2, h3] \<and>
      timers (scheduleTaskNotifications e (Some t) n) h1 =
        Some \<lparr>delay = T - 3600000 - int (nowMs e), tag = ''task-1h-'' @ task_id t\<rparr> \<and>
      timers (scheduleTaskNotifications e (Some t) n) h2 =
        Some \<lparr>delay = T - 300000 - int (nowMs e), tag = ''task-5m-'' @ task_id t\<rparr> \<and>
      timers (scheduleTaskNotifications e (Some t) n) h3 =
        Some \<lparr>delay = T - int (nowMs e), tag = ''task-start-'' @ task_id t\<rparr>"
    if "startInstant e t = Some T" "T - int (nowMs e) > 3600000" for T
    using that inc
    by (simp add: scheduleTaskNotifications_def startInstant_def Let_def future_def
        keys_scheduleAt timers_scheduleAt nextHandle_scheduleAt nextHandle_cancel)
  show "let n' = scheduleTaskNotifications e (Some t) n; now = int (nowMs e);
        sched = map_of (scheduledNotifications n')
    in
     pendingKinds (task_id t) n' =
       (if future (map_option (\<lambda>x. x - 3600000) (startInstant e t)) now
        then [task_id t @ ''-1h''] else []) @
       (if future (map_option (\<lambda>x. x - 300000) (startInstant e t)) now
        then [task_id t @ ''-5m''] else []) @
       (if future (startInstant e t) now then [task_id t @ ''-start''] else []) \<and>
     nextHandle n' = nextHandle n + length (pendingKinds (task_id t) n') \<and>
     (\<forall>T. startInstant e t = Some T \<and> T - now > 3600000 \<longrightarrow>
        pendingKinds (task_id t) n' =
          [task_id t @ ''-1h'', task_id t @ ''-5m'', task_id t @ ''-start''] \<and>
        (\<exists>h1 h2 h3. sched (task_id t @ ''-1h'') = Some h1 \<and>
           sched (task_id t @ ''-5m'') = Some h2 \<and> sched (task_id t @ ''-start'') = Some h3 \<and>
           distinct [h1, h2, h3] \<and>
           timers n' h1 = Some \<lparr>delay = T - 3600000 - now, tag = ''task-1h-'' @ task_id t\<rparr> \<and>
           timers n' h2 = Some \<lparr>delay = T - 300000 - now, tag = ''task-5m-'' @ task_id t\<rparr> \<and>
           timers n' h3 = Some \<lparr>delay = T - now, tag = ''task-start-'' @ task_id t\<rparr>)) \<and>
     (\<forall>T. startInstant e t = Some T \<and> 300000 < T - now \<and> T - now \<le> 3600000 \<longrightarrow>
        pendingKinds (task_id t) n' = [task_id t @ ''-5m'', task_id t @ ''-start'']) \<and>
     (\<forall>T. startInstant e t = Some T \<and> T \<le> now \<longrightarrow> pendingKinds (task_id t) n' = []) \<and>
     (startInstant e t = None \<longrightarrow> pendingKinds (task_id t) n' = [])"
    unfolding Let_def
    apply (intro conjI allI impI)
    subgoal by (rule p)
    subgoal by (rule c)
    subgoal for T by (simp add: p future_def)
    subgoal for T using three [of T] by blast
    subgoal for T by (simp add: p future_def)
    subgoal for T by (simp add: p future_def)
    subgoal by (simp add: p future_def)
    done
qed

text \<open>
  Claim C4, as the spec states it, fails for a completed task: its start is two hours
  ahead, more than 60 minutes, and scheduleTaskNotifications sets no timer for it.
\<close>

theorem completed_task_counterexample:
  "completed (storedTask ''t1'' ''2024-01-02'' ''12:00'' True) \<and>
   startInstant reminderEnv (storedTask ''t1'' ''2024-01-02'' ''12:00'' True) = Some 1704196800000 \<and>
   1704196800000 - int (nowMs reminderEnv) > 3600000 \<and>
   pendingKinds ''t1'' (scheduleTaskNotifications reminderEnv
      (Some (storedTask ''t1'' ''2024-01-02'' ''12:00'' True)) noTimers) = []"
  by (simp add: scheduleTaskNotifications_def storedTask_def formTask_def pendingKinds_def
      noTimers_def notificationKeys_def startInstant_def reminderEnv_def clock_def parseExample_def)

theorem scheduleTaskNotifications_reminders_witness:
  "pendingKinds ''t1'' (scheduleTaskNotifications reminderEnv
      (Some (storedTask ''t1'' ''2024-01-02'' ''12:00'' False)) noTimers)
     = [''t1-1h'', ''t1-5m'', ''t1-start''] \<and>
   pendingKinds ''t2'' (scheduleTaskNotifications reminderEnv
      (Some (storedTask ''t2'' ''2024-01-02'' ''10:30'' False)) noTimers)
     = [''t2-5m'', ''t2-start''] \<and>
   pendingKinds ''t3'' (scheduleTaskNotifications reminderEnv
      (Some (storedTask ''t3'' ''2024-01-02'' ''09:00'' False)) noTimers) = []"
proof -
  have now: "int (nowMs reminderEnv) = 1704189600000"
    by (simp add: reminderEnv_def clock_def)
  have a: "\<not> completed (storedTask i d s False)" for i d s
    by (simp add: storedTask_def)
  have i: "task_id (storedTask i d s False) = i" for i d s
    by (simp add: storedTask_def)
  have s1: "startInstant reminderEnv (storedTask ''t1'' ''2024-01-02'' ''12:00'' False) = Some 1704196800000"
    by (simp add: startInstant_def reminderEnv_def parseExample_def storedTask_def formTask_def)
  have s2: "startInstant reminderEnv (storedTask ''t2'' ''2024-01-02'' ''10:30'' False) = Some 1704191400000"
    by (simp add: startInstant_def reminderEnv_def parseExample_def storedTask_def formTask_def)
  have s3: "startInstant reminderEnv (storedTask ''t3'' ''2024-01-02'' ''09:00'' False) = Some 1704186000000"
    by (simp add: startInstant_def reminderEnv_def parseExample_def storedTask_def formTask_def)
  from scheduleTaskNotifications_reminders
         [where t = "storedTask ''t1'' ''2024-01-02'' ''12:00'' False" and e = reminderEnv
            and n = noTimers] a s1 now
  have r1: "pendingKinds ''t1'' (scheduleTaskNotifications reminderEnv
      (Some (storedTask ''t1'' ''2024-01-02'' ''12:00'' False)) noTimers)
     = [''t1-1h'', ''t1-5m'', ''t1-start'']"
    by (simp add: Let_def i future_def)
  from scheduleTaskNotifications_reminders
         [where t = "storedTask ''t2'' ''2024-01-02'' ''10:30'' False" and e = reminderEnv
            and n = noTimers] a s2 now
  have r2: "pendingKinds ''t2'' (scheduleTaskNotifications reminderEnv
      (Some (storedTask ''t2'' ''2024-01-02'' ''10:30'' False)) noTimers)
     = [''t2-5m'', ''t2-start'']"
    by (simp add: Let_def i future_def)
  from scheduleTaskNotifications_reminders
         [where t = "storedTask ''t3'' ''2024-01-02'' ''09:00'' False" and e = reminderEnv
            and n = noTimers] a s3 now
  have r3: "pendingKinds ''t3'' (scheduleTaskNotifications reminderEnv
      (Some (storedTask ''t3'' ''2024-01-02'' ''09:00'' False)) noTimers) = []"
    by (simp add: Let_def i future_def)
  from r1 r2 r3 show ?thesis by simp
qed

lemma dom_cancelKey:
  "fst ` set (scheduledNotifications (cancelKey k n)) \<subseteq> fst ` set (scheduledNotifications n)"
  by (auto simp: cancelKey_def clearTimeout_def AList.delete_eq split: option.splits)

lemma dom_cancel:
  "fst ` set (scheduledNotifications (cancelTaskNotifications i n))
     \<subseteq> fst ` set (scheduledNotifications n)"
proof -
  have "cancelTaskNotifications i n =
        cancelKey (i @ ''-start'') (cancelKey (i @ ''-5m'') (cancelKey (i @ ''-1h'') n))"
    by (simp add: cancelTaskNotifications_def notificationKeys_def)
  moreover have "fst ` set (scheduledNotifications
        (cancelKey (i @ ''-start'') (cancelKey (i @ ''-5m'') (cancelKey (i @ ''-1h'') n))))
      \<subseteq> fst ` set (scheduledNotifications n)"
    by (rule order_trans [OF dom_cancelKey order_trans [OF dom_cancelKey dom_cancelKey]])
  ultimately show ?thesis by simp
qed

lemma dom_scheduleAt:
  "fst ` set (scheduledNotifications (scheduleAt target now k tg n))
     \<subseteq> insert k (fst ` set (scheduledNotifications n))"
  by (auto simp: scheduleAt_def setTimeout_def AList.dom_update split: option.splits)

lemma dom_scheduleTask:
  "fst ` set (scheduledNotifications (scheduleTaskNotifications e (Some t) n))
     \<subseteq> fst ` set (scheduledNotifications n) \<union>
        (if completed t then {} else set (notificationKeys (task_id t)))"
proof (cases "completed t")
  case True
  then show ?thesis by (simp add: scheduleTaskNotifications_def)
next
  case False
  let ?T = "parseDate e (date t @ ''T'' @ startTime t)"
  let ?now = "int (nowMs e)"
  let ?n0 = "cancelTaskNotifications (task_id t) n"
  let ?n1 = "scheduleAt (map_option (\<lambda>x. x - 60 * 60 * 1000) ?T) ?now (task_id t @ ''-1h'')
               (''task-1h-'' @ task_id t) ?n0"
  let ?n2 = "scheduleAt (map_option (\<lambda>x. x - 5 * 60 * 1000) ?T) ?now (task_id t @ ''-5m'')
               (''task-5m-'' @ task_id t) ?n1"
  let ?n3 = "scheduleAt ?T ?now (task_id t @ ''-start'') (''task-start-'' @ task_id t) ?n2"
  have eq: "scheduleTaskNotifications e (Some t) n = ?n3"
    using False by (simp add: scheduleTaskNotifications_def Let_def)
  have "fst ` set (scheduledNotifications ?n3) \<subseteq>
        insert (task_id t @ ''-start'') (insert (task_id t @ ''-5m'')
          (insert (task_id t @ ''-1h'') (fst ` set (scheduledNotifications n))))"
    using dom_scheduleAt [of ?T ?now "task_id t @ ''-start''" "''task-start-'' @ task_id t" ?n2]
      dom_scheduleAt [of "map_option (\<lambda>x. x - 5 * 60 * 1000) ?T" ?now "task_id t @ ''-5m''"
        "''task-5m-'' @ task_id t" ?n1]
      dom_scheduleAt [of "map_option (\<lambda>x. x - 60 * 60 * 1000) ?T" ?now "task_id t @ ''-1h''"
        "''task-1h-'' @ task_id t" ?n0]
      dom_cancel [of "task_id t" n]
    by blast
  then show ?thesis
    using False unfolding eq by (auto simp: notificationKeys_def)
qed

lemma dom_fold_schedule:
  "fst ` set (scheduledNotifications (fold (\<lambda>t. scheduleTaskNotifications e (Some t)) ts n))
     \<subseteq> fst ` set (scheduledNotifications n) \<union>
        (\<Union>t \<in> set ts. if completed t then {} else set (notificationKeys (task_id t)))"
proof (induction ts arbitrary: n)
  case Nil
  then show ?case by simp
next
  case (Cons t ts)
  from Cons.IH [of "scheduleTaskNotifications e (Some t) n"] dom_scheduleTask [of e t n]
  show ?case unfolding fold_simps list.set UN_insert by blast
qed

lemma clearAll_empty: "scheduledNotifications (clearAllNotifications n) = []"
  by (simp add: clearAllNotifications_def)

text \<open>
  Claim C10: for a null task and for every completed task, scheduleTaskNotifications
  returns at once: no timer is set and the Map and the timers of all tasks are what they
  were. After scheduleAllTaskNotifications every key of the Map is a reminder key of an
  incomplete task of the current user, so only incomplete tasks acquire reminders.
\<close>

theorem completed_tasks_get_no_reminders:
  "scheduleTaskNotifications e None n = n \<and>
   (completed t \<longrightarrow> scheduleTaskNotifications e (Some t) n = n) \<and>
   (\<forall>k \<in> fst ` set (scheduledNotifications (scheduleAllTaskNotifications e d n)).
      \<exists>x \<in> set (getTasks d). \<not> completed x \<and> k \<in> set (notificationKeys (task_id x)))"
proof (intro conjI impI ballI)
  show "scheduleTaskNotifications e None n = n"
    by (simp add: scheduleTaskNotifications_def)
  show "scheduleTaskNotifications e (Some t) n = n" if "completed t"
    using that by (simp add: scheduleTaskNotifications_def)
  fix k
  assume "k \<in> fst ` set (scheduledNotifications (scheduleAllTaskNotifications e d n))"
  with dom_fold_schedule [of e "filter (\<lambda>t. \<not> completed t) (getTasks d)" "clearAllNotifications n"]
  have "k \<in> (\<Union>t \<in> set (filter (\<lambda>t. \<not> completed t) (getTasks d)).
               if completed t then {} else set (notificationKeys (task_id t)))"
    by (auto simp: scheduleAllTaskNotifications_def Let_def clearAll_empty)
  then show "\<exists>x \<in> set (getTasks d). \<not> completed x \<and> k \<in> set (notificationKeys (task_id x))"
    by (auto split: if_splits)
qed

theorem completed_tasks_get_no_reminders_witness:
  "completed (storedTask ''t1'' ''2024-01-02'' ''12:00'' True) \<and>
   scheduleTaskNotifications reminderEnv (Some (storedTask ''t1'' ''2024-01-02'' ''12:00'' True))
     (scheduleTaskNotifications reminderEnv
        (Some (storedTask ''t2'' ''2024-01-02'' ''10:30'' False)) noTimers)
   = scheduleTaskNotifications reminderEnv
        (Some (storedTask ''t2'' ''2024-01-02'' ''10:30'' False)) noTimers"
  using completed_tasks_get_no_reminders
    [where t = "storedTask ''t1'' ''2024-01-02'' ''12:00'' True" and e = reminderEnv
       and n = "scheduleTaskNotifications reminderEnv
        (Some (storedTask ''t2'' ''2024-01-02'' ''10:30'' False)) noTimers"]
  by (simp add: storedTask_def)

subsection \<open>Achievement Engine: the catalog\<close>

lemma addBadge_cases:
  "snd (addBadge b e d) = d \<or>
   (badgesOf (badge_id b) (currentUser d) (badges d) = [] \<and>
    snd (addBadge b e d) =
      d\<lparr>badges := badges d @ [b\<lparr>badge_userId := currentUser d, earnedAt := nowIso e\<rparr>]\<rparr>)"
  by (auto simp: addBadge_def badgesOf_def filter_empty_conv find_None_iff Let_def
      split: option.splits)

lemma awardBadge_keeps:
  "badgesOf i u (badges d) \<noteq> [] \<Longrightarrow>
   badgesOf i u (badges (awardBadge bd e d)) = badgesOf i u (badges d)"
  using addBadge_cases [of "badge_of_def bd e" e d]
  by (auto simp: awardBadge_def badgesOf_def)

lemma awardBadge_at_most_one:
  "length (badgesOf i u (badges d)) \<le> 1 \<Longrightarrow>
   length (badgesOf i u (badges (awardBadge bd e d))) \<le> 1"
  using addBadge_cases [of "badge_of_def bd e" e d]
  by (auto simp: awardBadge_def badgesOf_def)

lemma awardBadge_appends: "\<exists>new. badges (awardBadge bd e d) = badges d @ new"
  using addBadge_cases [of "badge_of_def bd e" e d]
  by (auto simp: awardBadge_def)

lemma foldl_award_keeps:
  "badgesOf i u (badges acc) \<noteq> [] \<Longrightarrow>
   badgesOf i u (badges (foldl (\<lambda>acc bd. if skip bd then acc
        else if cond bd then awardBadge bd e acc else acc) acc defs))
     = badgesOf i u (badges acc)"
proof (induction defs arbitrary: acc)
  case Nil
  then show ?case by simp
next
  case (Cons bd defs)
  let ?acc1 = "if skip bd then acc else if cond bd then awardBadge bd e acc else acc"
  have same: "badgesOf i u (badges ?acc1) = badgesOf i u (badges acc)"
    using Cons.prems by (simp add: awardBadge_keeps)
  with Cons.prems have "badgesOf i u (badges ?acc1) \<noteq> []" by simp
  from Cons.IH [OF this] same show ?case by simp
qed

lemma foldl_award_at_most_one:
  "length (badgesOf i u (badges acc)) \<le> 1 \<Longrightarrow>
   length (badgesOf i u (badges (foldl (\<lambda>acc bd. if skip bd then acc
        else if cond bd then awardBadge bd e acc else acc) acc defs))) \<le> 1"
proof (induction defs arbitrary: acc)
  case Nil
  then show ?case by simp
next
  case (Cons bd defs)
  let ?acc1 = "if skip bd then acc else if cond bd then awardBadge bd e acc else acc"
  have "length (badgesOf i u (badges ?acc1)) \<le> 1"
    using Cons.prems awardBadge_at_most_one [of i u acc bd e] by simp
  from Cons.IH [OF this] show ?case by simp
qed

lemma foldl_award_appends:
  "\<exists>new. badges (foldl (\<lambda>acc bd. if skip bd then acc
        else if cond bd then awardBadge bd e acc else acc) acc defs) = badges acc @ new"
proof (induction defs arbitrary: acc)
  case Nil
  then show ?case by simp
next
  case (Cons bd defs)
  let ?acc1 = "if skip bd then acc else if cond bd then awardBadge bd e acc else acc"
  have "\<exists>n1. badges ?acc1 = badges acc @ n1"
    by (simp add: awardBadge_appends)
  then obtain n1 where n1: "badges ?acc1 = badges acc @ n1" ..
  from Cons.IH [of ?acc1] obtain n2 where
    "badges (foldl (\<lambda>acc bd. if skip bd then acc
        else if cond bd then awardBadge bd e acc else acc) ?acc1 defs) = badges ?acc1 @ n2"
    by blast
  with n1 show ?case by simp
qed

lemma checkBadges_keeps:
  "badgesOf i u (badges d) \<noteq> [] \<Longrightarrow>
   badgesOf i u (badges (checkBadges defs e d)) = badgesOf i u (badges d)"
  unfolding checkBadges_def Let_def by (rule foldl_award_keeps)

lemma checkBadges_at_most_one:
  "length (badgesOf i u (badges d)) \<le> 1 \<Longrightarrow>
   length (badgesOf i u (badges (checkBadges defs e d))) \<le> 1"
  unfolding checkBadges_def Let_def by (rule foldl_award_at_most_one)

lemma checkBadges_appends: "\<exists>new. badges (checkBadges defs e d) = badges d @ new"
  unfolding checkBadges_def Let_def by (rule foldl_award_appends)

text \<open>
  Claim C5: once a badge with an id exists for a user, running checkAllBadges again, any
  number of times, never adds a second badge with that id for that user: the user's
  badges with that id stay exactly what they were. Moreover a user with at most one badge
  of an id keeps at most one, and the runs only append to the stored badges. This holds
  for every id of the catalog, dailyCompletion included.
\<close>

theorem checkAllBadges_no_duplicate:
  "(badgesOf i u (badges d) \<noteq> [] \<longrightarrow>
      badgesOf i u (badges (rerun es d)) = badgesOf i u (badges d)) \<and>
   (length (badgesOf i u (badges d)) \<le> 1 \<longrightarrow>
      length (badgesOf i u (badges (rerun es d))) \<le> 1) \<and>
   (\<exists>new. badges (rerun es d) = badges d @ new)"
proof (induction es arbitrary: d)
  case Nil
  then show ?case by (simp add: rerun_def)
next
  case (Cons e es)
  let ?d1 = "checkAllBadges e d"
  have r: "rerun (e # es) d = rerun es ?d1"
    by (simp add: rerun_def)
  have k: "badgesOf i u (badges d) \<noteq> [] \<Longrightarrow> badgesOf i u (badges ?d1) = badgesOf i u (badges d)"
    unfolding checkAllBadges_def by (rule checkBadges_keeps)
  have m: "length (badgesOf i u (badges d)) \<le> 1 \<Longrightarrow> length (badgesOf i u (badges ?d1)) \<le> 1"
    unfolding checkAllBadges_def by (rule checkBadges_at_most_one)
  obtain n1 where n1: "badges ?d1 = badges d @ n1"
    using checkBadges_appends [of "badgeDefinitions e" e d] by (auto simp: checkAllBadges_def)
  from Cons.IH [of ?d1] obtain n2 where n2: "badges (rerun es ?d1) = badges ?d1 @ n2"
    by blast
  from Cons.IH [of ?d1] k m n1 n2 show ?case
    unfolding r by auto
qed

theorem checkAllBadges_no_duplicate_witness:
  "badgesOf ''firstTask'' (Some ''alice'')
     (badges (rerun [clock 1704189600000 ''2024-01-02T10:00:00.000Z'',
                     clock 1704193200000 ''2024-01-02T11:00:00.000Z'']
        (aliceData [storedTask ''t1'' ''2024-01-02'' ''09:00'' True] [firstTaskBadge])))
   = [firstTaskBadge]"
proof -
  let ?d = "aliceData [storedTask ''t1'' ''2024-01-02'' ''09:00'' True] [firstTaskBadge]"
  have held: "badgesOf ''firstTask'' (Some ''alice'') (badges ?d) = [firstTaskBadge]"
    by (simp add: badgesOf_def aliceData_def emptyData_def firstTaskBadge_def)
  then have "badgesOf ''firstTask'' (Some ''alice'') (badges ?d) \<noteq> []"
    by simp
  with checkAllBadges_no_duplicate [where i = "''firstTask''" and u = "Some ''alice''" and d = ?d
      and es = "[clock 1704189600000 ''2024-01-02T10:00:00.000Z'',
                 clock 1704193200000 ''2024-01-02T11:00:00.000Z'']"]
  have "badgesOf ''firstTask'' (Some ''alice'')
     (badges (rerun [clock 1704189600000 ''2024-01-02T10:00:00.000Z'',
                     clock 1704193200000 ''2024-01-02T11:00:00.000Z''] ?d))
     = badgesOf ''firstTask'' (Some ''alice'') (badges ?d)"
    by blast
  with held show ?thesis by simp
qed

subsection \<open>Achievement Engine: the streak\<close>


























end
